theory Spec2Isabelle
  imports Complex_Main "HOL-Library.Multiset"
begin

section \<open>JavaScript values of a parsed request body\<close>

text \<open>
  \<open>express.json()\<close> hands every handler of \<open>server.js\<close> the parsed JSON body. A JSON
  number is a finite double, read here as the rational it denotes (\<open>JSON.parse\<close> never
  yields \<open>NaN\<close>); the handlers only test numbers for their type and for being zero, the
  schemas only compare them with \<open>0\<close>. A string is its list of bytes.
\<close>

datatype jsval =
    JUndefined
  | JNull
  | JBool bool
  | JNum rat
  | JStr string
  | JArr "jsval list"
  | JObj "(string \<times> jsval) list"

type_synonym reqbody = "string \<rightharpoonup> jsval"

text \<open>The body of a request is a JSON object. \<open>const { k } = req.body\<close>: a key the
  body lacks reads as \<open>undefined\<close>.\<close>

definition getprop :: "reqbody \<Rightarrow> string \<Rightarrow> jsval" where
  "getprop b k = (case b k of None \<Rightarrow> JUndefined | Some v \<Rightarrow> v)"

text \<open>JavaScript truthiness, the meaning of \<open>!x\<close> in the handlers.\<close>

fun truthy :: "jsval \<Rightarrow> bool" where
  "truthy JUndefined = False"
| "truthy JNull = False"
| "truthy (JBool b) = b"
| "truthy (JNum n) = (n \<noteq> 0)"
| "truthy (JStr s) = (s \<noteq> [])"
| "truthy (JArr xs) = True"
| "truthy (JObj kvs) = True"

fun typeof :: "jsval \<Rightarrow> string" where
  "typeof JUndefined = ''undefined''"
| "typeof JNull = ''object''"
| "typeof (JBool b) = ''boolean''"
| "typeof (JNum n) = ''number''"
| "typeof (JStr s) = ''string''"
| "typeof (JArr xs) = ''object''"
| "typeof (JObj kvs) = ''object''"

section \<open>Documents and the state of the service\<close>

text \<open>
  Every schema of \<open>server.js\<close> has \<open>timestamps: true\<close>: a document carries its
  identity \<open>_id\<close> (here \<open>oid\<close>) and the instants \<open>createdAt\<close> and \<open>updatedAt\<close>, in
  milliseconds. The three reading schemas add \<open>conductorId\<close> and \<open>fecha\<close> (default
  \<open>Date.now\<close>) and their own numbers.
\<close>

record stamped =
  oid :: nat
  createdAt :: nat
  updatedAt :: nat

record conductor_doc = stamped +
  nombre :: string
  edad :: rat
  sexo :: string
  turno :: string
  enfermedad :: string

record reading = stamped +
  conductorId :: string
  fecha :: nat

record ritmo_doc = reading +
  bpm :: rat

record brujula_doc = reading +
  compass :: rat

record ubicacion_doc = reading +
  latitud :: rat
  longitud :: rat

text \<open>
  The state a handler runs in: the four collections in the store's natural (insertion)
  order, \<open>mongoose.connection.readyState\<close>, the error the store driver raises on an
  operation (\<open>None\<close> when the store answers), the reading of \<open>Date.now()\<close>, that of
  \<open>new Date().toISOString()\<close>, that of \<open>process.uptime()\<close>, and the next identity to
  give out. A request reads the clock once, and the store's condition does not change
  while one handler runs.
\<close>

record world =
  Conductores :: "conductor_doc list"
  Ritmos :: "ritmo_doc list"
  Brujulas :: "brujula_doc list"
  Ubicaciones :: "ubicacion_doc list"
  readyState :: nat
  fault :: "string option"
  clock :: nat
  isoNow :: string
  uptime :: rat
  next_oid :: nat

section \<open>Responses\<close>

datatype thrown_kind = CastErr | RequiredErr | MinErr | EnumErr

text \<open>
  What \<open>catch (err)\<close> receives: the error that \<open>save()\<close> throws when the document
  fails the schema's validation, with the failing paths and the validator that failed on
  each, or an error of the store driver with its message.
\<close>

datatype thrown =
    SchemaViolation "(string \<times> thrown_kind) list"
  | StoreError string

text \<open>
  The JSON bodies the handlers send, one constructor for each shape:
  \<open>{error: "..."}\<close> with a literal message, \<open>{error: err.message}\<close>, a JSON object
  given key by key (the health report), \<open>{message, data}\<close> for a created document, a
  bare document, the combined latest reading, \<open>{total, data}\<close> for a listing and the
  counts of the bulk delete.
\<close>

datatype body =
    ErrorMsg string
  | ErrorThrown thrown
  | Json jsval
  | ConductorCreado string conductor_doc
  | RitmoGuardado string ritmo_doc
  | BrujulaGuardada string brujula_doc
  | UbicacionGuardada string ubicacion_doc
  | RitmoDoc ritmo_doc
  | BrujulaDoc brujula_doc
  | UbicacionDoc ubicacion_doc
  | Lectura string "(rat \<times> nat) option" "(rat \<times> nat) option" "(rat \<times> rat \<times> nat) option"
  | ConductorList nat "conductor_doc list"
  | RitmoList nat "ritmo_doc list"
  | BrujulaList nat "brujula_doc list"
  | UbicacionList nat "ubicacion_doc list"
  | Borrados string nat nat nat nat

record response =
  status :: nat
  body :: body

text \<open>\<open>res.json(x)\<close> answers 200; \<open>res.status(n).json(x)\<close> answers \<open>n\<close>.\<close>

definition json :: "body \<Rightarrow> response" where
  "json x = \<lparr>status = 200, body = x\<rparr>"

definition status_json :: "nat \<Rightarrow> body \<Rightarrow> response" where
  "status_json n x = \<lparr>status = n, body = x\<rparr>"

section \<open>The Mongoose models\<close>

text \<open>
  Mongoose is a library, not code of \<open>server.js\<close>; what follows is the part of it that
  the schemas of \<open>server.js\<close> switch on. A path of type \<open>Number\<close> or \<open>String\<close> casts the
  value it is given: \<open>undefined\<close> and \<open>null\<close> stay empty, a value of the path's own type
  is kept, and any other value goes through the library's conversion, which either
  yields a value, yields \<open>null\<close> or fails with a \<open>CastError\<close>. That conversion is a
  parameter of the model.
\<close>

datatype 'a cast = Cast 'a | Nullish | CastFailed

record mongoose =
  convNumber :: "jsval \<Rightarrow> rat cast"
  convString :: "jsval \<Rightarrow> string cast"

definition castNumber :: "mongoose \<Rightarrow> jsval \<Rightarrow> rat cast" where
  "castNumber M v =
     (case v of
        JUndefined \<Rightarrow> Nullish
      | JNull \<Rightarrow> Nullish
      | JNum n \<Rightarrow> Cast n
      | _ \<Rightarrow> convNumber M v)"

definition castString :: "mongoose \<Rightarrow> jsval \<Rightarrow> string cast" where
  "castString M v =
     (case v of
        JUndefined \<Rightarrow> Nullish
      | JNull \<Rightarrow> Nullish
      | JStr s \<Rightarrow> Cast s
      | _ \<Rightarrow> convString M v)"

text \<open>\<open>trim: true\<close> on \<open>nombre\<close>: the setter strips white space at both ends (the ASCII
  white space of \<open>String.prototype.trim\<close>).\<close>

definition is_space :: "char \<Rightarrow> bool" where
  "is_space c = (c \<in> set [CHR '' '', CHR 0x09, CHR 0x0A, CHR 0x0B, CHR 0x0C, CHR 0x0D])"

definition trim :: "string \<Rightarrow> string" where
  "trim s = rev (dropWhile is_space (rev (dropWhile is_space s)))"

definition trimmed :: "string cast \<Rightarrow> string cast" where
  "trimmed c = (case c of Cast s \<Rightarrow> Cast (trim s) | Nullish \<Rightarrow> Nullish | CastFailed \<Rightarrow> CastFailed)"

text \<open>
  The validators of a path. A failed cast is the path's error; otherwise \<open>required\<close>
  runs first (a string must be non-empty, a number must be there), then \<open>min\<close> or
  \<open>enum\<close>, which accept an empty path. A path reports its first failure.
\<close>

definition castOk :: "string \<Rightarrow> 'a cast \<Rightarrow> (string \<times> thrown_kind) list" where
  "castOk path c = (case c of CastFailed \<Rightarrow> [(path, CastErr)] | _ \<Rightarrow> [])"

definition requiredString :: "string \<Rightarrow> string cast \<Rightarrow> (string \<times> thrown_kind) list" where
  "requiredString path c =
     (case c of Cast s \<Rightarrow> (if s = [] then [(path, RequiredErr)] else [])
      | Nullish \<Rightarrow> [(path, RequiredErr)]
      | CastFailed \<Rightarrow> [])"

definition requiredNumber :: "string \<Rightarrow> rat cast \<Rightarrow> (string \<times> thrown_kind) list" where
  "requiredNumber path c =
     (case c of Cast n \<Rightarrow> []
      | Nullish \<Rightarrow> [(path, RequiredErr)]
      | CastFailed \<Rightarrow> [])"

definition minNumber :: "rat \<Rightarrow> string \<Rightarrow> rat cast \<Rightarrow> (string \<times> thrown_kind) list" where
  "minNumber m path c =
     (case c of Cast n \<Rightarrow> (if n < m then [(path, MinErr)] else [])
      | Nullish \<Rightarrow> []
      | CastFailed \<Rightarrow> [])"

definition enumString :: "string list \<Rightarrow> string \<Rightarrow> string cast \<Rightarrow> (string \<times> thrown_kind) list" where
  "enumString vs path c =
     (case c of Cast s \<Rightarrow> (if s \<in> set vs then [] else [(path, EnumErr)])
      | Nullish \<Rightarrow> []
      | CastFailed \<Rightarrow> [])"

definition firstError :: "(string \<times> thrown_kind) list list \<Rightarrow> (string \<times> thrown_kind) list" where
  "firstError checks = (case concat checks of [] \<Rightarrow> [] | e # _ \<Rightarrow> [e])"

definition castValue :: "'a \<Rightarrow> 'a cast \<Rightarrow> 'a" where
  "castValue d c = (case c of Cast x \<Rightarrow> x | Nullish \<Rightarrow> d | CastFailed \<Rightarrow> d)"

text \<open>
  \<open>await doc.save()\<close>: validation runs first and throws the validation error of all
  failing paths; a valid document goes to the store, which throws when it is at fault.
\<close>

definition saveCheck :: "world \<Rightarrow> (string \<times> thrown_kind) list \<Rightarrow> thrown option" where
  "saveCheck w errs =
     (if errs \<noteq> [] then Some (SchemaViolation errs)
      else (case fault w of Some m \<Rightarrow> Some (StoreError m) | None \<Rightarrow> None))"

text \<open>\<open>conductorSchema\<close>: \<open>new Conductor({nombre, edad, sexo, turno, enfermedad})\<close>
  followed by \<open>save()\<close>.\<close>

definition Conductor_errors ::
  "string cast \<Rightarrow> rat cast \<Rightarrow> string cast \<Rightarrow> string cast \<Rightarrow> string cast
     \<Rightarrow> (string \<times> thrown_kind) list" where
  "Conductor_errors n e s t f =
     firstError [castOk ''nombre'' n, requiredString ''nombre'' n]
     @ firstError [castOk ''edad'' e, requiredNumber ''edad'' e, minNumber 0 ''edad'' e]
     @ firstError [castOk ''sexo'' s, requiredString ''sexo'' s,
                   enumString [''Masculino'', ''Femenino''] ''sexo'' s]
     @ firstError [castOk ''turno'' t, requiredString ''turno'' t]
     @ firstError [castOk ''enfermedad'' f, requiredString ''enfermedad'' f]"

definition Conductor_save ::
  "mongoose \<Rightarrow> world \<Rightarrow> jsval \<Rightarrow> jsval \<Rightarrow> jsval \<Rightarrow> jsval \<Rightarrow> jsval
     \<Rightarrow> thrown + (conductor_doc \<times> world)" where
  "Conductor_save M w vn ve vs vt vf =
     (let n = trimmed (castString M vn); e = castNumber M ve; s = castString M vs;
          t = castString M vt; f = castString M vf
      in case saveCheck w (Conductor_errors n e s t f) of
           Some err \<Rightarrow> Inl err
         | None \<Rightarrow>
             (let d = \<lparr>oid = next_oid w, createdAt = clock w, updatedAt = clock w,
                       nombre = castValue [] n, edad = castValue 0 e, sexo = castValue [] s,
                       turno = castValue [] t, enfermedad = castValue [] f\<rparr>
              in Inr (d, w\<lparr>Conductores := Conductores w @ [d], next_oid := Suc (next_oid w)\<rparr>)))"

text \<open>\<open>ritmoSchema\<close>: \<open>new Ritmo({conductorId, bpm})\<close> followed by \<open>save()\<close>.\<close>

definition Ritmo_errors :: "string cast \<Rightarrow> rat cast \<Rightarrow> (string \<times> thrown_kind) list" where
  "Ritmo_errors c b =
     firstError [castOk ''conductorId'' c, requiredString ''conductorId'' c]
     @ firstError [castOk ''bpm'' b, requiredNumber ''bpm'' b, minNumber 0 ''bpm'' b]"

definition Ritmo_save ::
  "mongoose \<Rightarrow> world \<Rightarrow> jsval \<Rightarrow> jsval \<Rightarrow> thrown + (ritmo_doc \<times> world)" where
  "Ritmo_save M w vc vb =
     (let c = castString M vc; b = castNumber M vb
      in case saveCheck w (Ritmo_errors c b) of
           Some err \<Rightarrow> Inl err
         | None \<Rightarrow>
             (let d = \<lparr>oid = next_oid w, createdAt = clock w, updatedAt = clock w,
                       conductorId = castValue [] c, fecha = clock w, bpm = castValue 0 b\<rparr>
              in Inr (d, w\<lparr>Ritmos := Ritmos w @ [d], next_oid := Suc (next_oid w)\<rparr>)))"

text \<open>\<open>brujulaSchema\<close>: \<open>new Brujula({conductorId, compass})\<close> followed by \<open>save()\<close>.\<close>

definition Brujula_errors :: "string cast \<Rightarrow> rat cast \<Rightarrow> (string \<times> thrown_kind) list" where
  "Brujula_errors c k =
     firstError [castOk ''conductorId'' c, requiredString ''conductorId'' c]
     @ firstError [castOk ''compass'' k, requiredNumber ''compass'' k]"

definition Brujula_save ::
  "mongoose \<Rightarrow> world \<Rightarrow> jsval \<Rightarrow> jsval \<Rightarrow> thrown + (brujula_doc \<times> world)" where
  "Brujula_save M w vc vk =
     (let c = castString M vc; k = castNumber M vk
      in case saveCheck w (Brujula_errors c k) of
           Some err \<Rightarrow> Inl err
         | None \<Rightarrow>
             (let d = \<lparr>oid = next_oid w, createdAt = clock w, updatedAt = clock w,
                       conductorId = castValue [] c, fecha = clock w, compass = castValue 0 k\<rparr>
              in Inr (d, w\<lparr>Brujulas := Brujulas w @ [d], next_oid := Suc (next_oid w)\<rparr>)))"

text \<open>\<open>ubicacionSchema\<close>: \<open>new Ubicacion({conductorId, latitud, longitud})\<close> followed by
  \<open>save()\<close>.\<close>

definition Ubicacion_errors ::
  "string cast \<Rightarrow> rat cast \<Rightarrow> rat cast \<Rightarrow> (string \<times> thrown_kind) list" where
  "Ubicacion_errors c la lo =
     firstError [castOk ''conductorId'' c, requiredString ''conductorId'' c]
     @ firstError [castOk ''latitud'' la, requiredNumber ''latitud'' la]
     @ firstError [castOk ''longitud'' lo, requiredNumber ''longitud'' lo]"

definition Ubicacion_save ::
  "mongoose \<Rightarrow> world \<Rightarrow> jsval \<Rightarrow> jsval \<Rightarrow> jsval \<Rightarrow> thrown + (ubicacion_doc \<times> world)" where
  "Ubicacion_save M w vc vla vlo =
     (let c = castString M vc; la = castNumber M vla; lo = castNumber M vlo
      in case saveCheck w (Ubicacion_errors c la lo) of
           Some err \<Rightarrow> Inl err
         | None \<Rightarrow>
             (let d = \<lparr>oid = next_oid w, createdAt = clock w, updatedAt = clock w,
                       conductorId = castValue [] c, fecha = clock w,
                       latitud = castValue 0 la, longitud = castValue 0 lo\<rparr>
              in Inr (d, w\<lparr>Ubicaciones := Ubicaciones w @ [d], next_oid := Suc (next_oid w)\<rparr>)))"

text \<open>
  Queries. \<open>.sort({createdAt: -1})\<close> orders by \<open>createdAt\<close>, latest first; among equal
  instants the store promises no order, and the model keeps the natural one.
  \<open>Model.find()\<close> is the whole collection, \<open>Model.findOne({conductorId})\<close> with that sort
  the first document of the driver in the sorted order, or \<open>null\<close>. Every query throws
  when the store is at fault.
\<close>

definition sortDesc :: "('a stamped_scheme) list \<Rightarrow> ('a stamped_scheme) list" where
  "sortDesc ds = sort_key (\<lambda>d. - int (createdAt d)) ds"

definition query :: "world \<Rightarrow> 'r \<Rightarrow> thrown + 'r" where
  "query w r = (case fault w of Some m \<Rightarrow> Inl (StoreError m) | None \<Rightarrow> Inr r)"

definition findSorted :: "world \<Rightarrow> ('a stamped_scheme) list \<Rightarrow> thrown + ('a stamped_scheme) list" where
  "findSorted w coll = query w (sortDesc coll)"

definition latestOf :: "string \<Rightarrow> ('a reading_scheme) list \<Rightarrow> ('a reading_scheme) option" where
  "latestOf cid coll =
     (case sortDesc (filter (\<lambda>d. conductorId d = cid) coll) of
        [] \<Rightarrow> None
      | d # _ \<Rightarrow> Some d)"

definition findOneSorted ::
  "world \<Rightarrow> string \<Rightarrow> ('a reading_scheme) list \<Rightarrow> thrown + ('a reading_scheme) option" where
  "findOneSorted w cid coll = query w (latestOf cid coll)"

section \<open>The handlers of \<open>server.js\<close>\<close>

text \<open>
  A handler takes the state (and the request) and returns the response with the state
  it leaves. The \<open>try\<close>/\<open>catch\<close> of a handler answers 500 with the thrown error's
  message. Messages are the byte strings of the source, UTF-8 for the accented letters.
\<close>

definition u_acute :: string where
  "u_acute = [CHR 0xC3, CHR 0xBA]"

definition o_acute :: string where
  "o_acute = [CHR 0xC3, CHR 0xB3]"

definition post_conductor :: "mongoose \<Rightarrow> world \<Rightarrow> reqbody \<Rightarrow> response \<times> world" where
  "post_conductor M w b =
     (let vnombre = getprop b ''nombre''; vedad = getprop b ''edad''; vsexo = getprop b ''sexo'';
          vturno = getprop b ''turno''; venfermedad = getprop b ''enfermedad''
      in if \<not> truthy vnombre \<or> \<not> truthy vedad \<or> \<not> truthy vsexo \<or> \<not> truthy vturno
            \<or> \<not> truthy venfermedad
         then (status_json 400 (ErrorMsg ''Todos los campos son requeridos''), w)
         else (case Conductor_save M w vnombre vedad vsexo vturno venfermedad of
                 Inl err \<Rightarrow> (status_json 500 (ErrorThrown err), w)
               | Inr (nuevo, w') \<Rightarrow>
                   (status_json 201 (ConductorCreado ''Conductor creado'' nuevo), w')))"

definition post_ritmo :: "mongoose \<Rightarrow> world \<Rightarrow> reqbody \<Rightarrow> response \<times> world" where
  "post_ritmo M w b =
     (let vconductorId = getprop b ''conductorId''; vbpm = getprop b ''bpm''
      in if \<not> truthy vconductorId \<or> typeof vbpm \<noteq> ''number''
         then (status_json 400 (ErrorMsg ''conductorId y bpm son requeridos''), w)
         else (case Ritmo_save M w vconductorId vbpm of
                 Inl err \<Rightarrow> (status_json 500 (ErrorThrown err), w)
               | Inr (lectura, w') \<Rightarrow>
                   (status_json 201 (RitmoGuardado ''Ritmo guardado'' lectura), w')))"

definition post_brujula :: "mongoose \<Rightarrow> world \<Rightarrow> reqbody \<Rightarrow> response \<times> world" where
  "post_brujula M w b =
     (let vconductorId = getprop b ''conductorId''; vcompass = getprop b ''compass''
      in if \<not> truthy vconductorId \<or> typeof vcompass \<noteq> ''number''
         then (status_json 400 (ErrorMsg ''conductorId y compass son requeridos''), w)
         else (case Brujula_save M w vconductorId vcompass of
                 Inl err \<Rightarrow> (status_json 500 (ErrorThrown err), w)
               | Inr (lectura, w') \<Rightarrow>
                   (status_json 201
                      (BrujulaGuardada (''Br'' @ u_acute @ ''jula guardada'') lectura), w')))"

definition post_ubicacion :: "mongoose \<Rightarrow> world \<Rightarrow> reqbody \<Rightarrow> response \<times> world" where
  "post_ubicacion M w b =
     (let vconductorId = getprop b ''conductorId''; vlatitud = getprop b ''latitud'';
          vlongitud = getprop b ''longitud''
      in if \<not> truthy vconductorId \<or> vlatitud = JUndefined \<or> vlongitud = JUndefined
         then (status_json 400 (ErrorMsg ''conductorId, latitud y longitud son requeridos''), w)
         else (case Ubicacion_save M w vconductorId vlatitud vlongitud of
                 Inl err \<Rightarrow> (status_json 500 (ErrorThrown err), w)
               | Inr (lectura, w') \<Rightarrow>
                   (status_json 201
                      (UbicacionGuardada (''Ubicaci'' @ o_acute @ ''n guardada'') lectura), w')))"

definition get_ritmo_latest :: "world \<Rightarrow> string \<Rightarrow> response \<times> world" where
  "get_ritmo_latest w cid =
     (case findOneSorted w cid (Ritmos w) of
        Inl err \<Rightarrow> (status_json 500 (ErrorThrown err), w)
      | Inr None \<Rightarrow> (status_json 404 (ErrorMsg ''Sin lecturas de ritmo''), w)
      | Inr (Some doc) \<Rightarrow> (json (RitmoDoc doc), w))"

definition get_brujula_latest :: "world \<Rightarrow> string \<Rightarrow> response \<times> world" where
  "get_brujula_latest w cid =
     (case findOneSorted w cid (Brujulas w) of
        Inl err \<Rightarrow> (status_json 500 (ErrorThrown err), w)
      | Inr None \<Rightarrow>
          (status_json 404 (ErrorMsg (''Sin lecturas de br'' @ u_acute @ ''jula'')), w)
      | Inr (Some doc) \<Rightarrow> (json (BrujulaDoc doc), w))"

definition get_ubicacion_latest :: "world \<Rightarrow> string \<Rightarrow> response \<times> world" where
  "get_ubicacion_latest w cid =
     (case findOneSorted w cid (Ubicaciones w) of
        Inl err \<Rightarrow> (status_json 500 (ErrorThrown err), w)
      | Inr None \<Rightarrow>
          (status_json 404 (ErrorMsg (''Sin lecturas de ubicaci'' @ o_acute @ ''n'')), w)
      | Inr (Some doc) \<Rightarrow> (json (UbicacionDoc doc), w))"

text \<open>
  \<open>GET /lectura/:conductorId/latest\<close>. \<open>Promise.all\<close> rejects as soon as one of the three
  lookups rejects and otherwise yields the three results; the order in which the lookups
  run is not part of this model.
\<close>

definition get_lectura_latest :: "world \<Rightarrow> string \<Rightarrow> response \<times> world" where
  "get_lectura_latest w cid =
     (case findOneSorted w cid (Ritmos w) of
        Inl err \<Rightarrow> (status_json 500 (ErrorThrown err), w)
      | Inr ritmo \<Rightarrow>
     (case findOneSorted w cid (Brujulas w) of
        Inl err \<Rightarrow> (status_json 500 (ErrorThrown err), w)
      | Inr brujula \<Rightarrow>
     (case findOneSorted w cid (Ubicaciones w) of
        Inl err \<Rightarrow> (status_json 500 (ErrorThrown err), w)
      | Inr ubicacion \<Rightarrow>
          (if ritmo = None \<and> brujula = None \<and> ubicacion = None
           then (status_json 404 (ErrorMsg ''No hay lecturas para este conductor''), w)
           else (json (Lectura cid
                   (case ritmo of Some r \<Rightarrow> Some (bpm r, fecha r) | None \<Rightarrow> None)
                   (case brujula of Some r \<Rightarrow> Some (compass r, fecha r) | None \<Rightarrow> None)
                   (case ubicacion of Some r \<Rightarrow> Some (latitud r, longitud r, fecha r)
                    | None \<Rightarrow> None)), w)))))"

definition get_conductor_all :: "world \<Rightarrow> response \<times> world" where
  "get_conductor_all w =
     (case findSorted w (Conductores w) of
        Inl err \<Rightarrow> (status_json 500 (ErrorThrown err), w)
      | Inr conductores \<Rightarrow> (json (ConductorList (length conductores) conductores), w))"

definition get_ritmo_all :: "world \<Rightarrow> response \<times> world" where
  "get_ritmo_all w =
     (case findSorted w (Ritmos w) of
        Inl err \<Rightarrow> (status_json 500 (ErrorThrown err), w)
      | Inr lecturas \<Rightarrow> (json (RitmoList (length lecturas) lecturas), w))"

definition get_brujula_all :: "world \<Rightarrow> response \<times> world" where
  "get_brujula_all w =
     (case findSorted w (Brujulas w) of
        Inl err \<Rightarrow> (status_json 500 (ErrorThrown err), w)
      | Inr lecturas \<Rightarrow> (json (BrujulaList (length lecturas) lecturas), w))"

definition get_ubicacion_all :: "world \<Rightarrow> response \<times> world" where
  "get_ubicacion_all w =
     (case findSorted w (Ubicaciones w) of
        Inl err \<Rightarrow> (status_json 500 (ErrorThrown err), w)
      | Inr lecturas \<Rightarrow> (json (UbicacionList (length lecturas) lecturas), w))"

text \<open>
  \<open>DELETE /conductor/all\<close>: four \<open>deleteMany({})\<close> in a row, each awaited before the next;
  \<open>deletedCount\<close> is the number of documents the collection held.
\<close>

definition delete_conductor_all :: "world \<Rightarrow> response \<times> world" where
  "delete_conductor_all w =
     (case query w (length (Conductores w)) of
        Inl err \<Rightarrow> (status_json 500 (ErrorThrown err), w)
      | Inr borradoConductores \<Rightarrow>
     (let w1 = w\<lparr>Conductores := []\<rparr> in
      case query w1 (length (Ritmos w1)) of
        Inl err \<Rightarrow> (status_json 500 (ErrorThrown err), w1)
      | Inr borradoRitmos \<Rightarrow>
     (let w2 = w1\<lparr>Ritmos := []\<rparr> in
      case query w2 (length (Brujulas w2)) of
        Inl err \<Rightarrow> (status_json 500 (ErrorThrown err), w2)
      | Inr borradoBrujula \<Rightarrow>
     (let w3 = w2\<lparr>Brujulas := []\<rparr> in
      case query w3 (length (Ubicaciones w3)) of
        Inl err \<Rightarrow> (status_json 500 (ErrorThrown err), w3)
      | Inr borradoUbicacion \<Rightarrow>
          (json (Borrados ''Todos los conductores y lecturas han sido borrados''
                   borradoConductores borradoRitmos borradoBrujula borradoUbicacion),
           w3\<lparr>Ubicaciones := []\<rparr>)))))"

definition health :: "world \<Rightarrow> response \<times> world" where
  "health w =
     (json (Json (JObj
        [(''status'', JStr ''ok''),
         (''mongo'', JStr (if readyState w = 1 then ''connected'' else ''disconnected'')),
         (''uptime'', JNum (uptime w)),
         (''now'', JStr (isoNow w))])), w)"

section \<open>Words of the specification\<close>

text \<open>
  The driver has a reading in a collection; a document is a most recent one of the driver
  (none of the driver's documents was created later); a listing is ordered by creation
  time, most recent first.
\<close>

definition hasReading :: "string \<Rightarrow> ('a reading_scheme) list \<Rightarrow> bool" where
  "hasReading cid coll = (\<exists>d\<in>set coll. conductorId d = cid)"

definition mostRecent :: "string \<Rightarrow> ('a reading_scheme) list \<Rightarrow> 'a reading_scheme \<Rightarrow> bool" where
  "mostRecent cid coll d =
     (d \<in> set coll \<and> conductorId d = cid \<and>
      (\<forall>x\<in>set coll. conductorId x = cid \<longrightarrow> createdAt x \<le> createdAt d))"

text \<open>The keys of a body that is a JSON object given key by key.\<close>

fun json_keys :: "body \<Rightarrow> string list" where
  "json_keys (Json (JObj kvs)) = map fst kvs"
| "json_keys other = []"

definition recentFirst :: "('a stamped_scheme) list \<Rightarrow> bool" where
  "recentFirst ds = sorted_wrt (\<lambda>a b. createdAt b \<le> createdAt a) ds"

section \<open>Concrete states and requests\<close>

text \<open>A library whose conversions reject every value that is not of the path's type, an
  empty store in service, a store that holds documents, and some request bodies.\<close>

definition strictM :: mongoose where
  "strictM = \<lparr>convNumber = (\<lambda>v. CastFailed), convString = (\<lambda>v. CastFailed)\<rparr>"

definition emptyW :: world where
  "emptyW = \<lparr>Conductores = [], Ritmos = [], Brujulas = [], Ubicaciones = [],
         readyState = 1, fault = None, clock = 1000, isoNow = ''1970-01-01T00:00:01.000Z'',
         uptime = 5, next_oid = 0\<rparr>"

definition r72 :: ritmo_doc where
  "r72 = \<lparr>oid = 1, createdAt = 10, updatedAt = 10, conductorId = ''D1'', fecha = 10, bpm = 72\<rparr>"

definition r80 :: ritmo_doc where
  "r80 = \<lparr>oid = 2, createdAt = 20, updatedAt = 20, conductorId = ''D1'', fecha = 20, bpm = 80\<rparr>"

definition r65 :: ritmo_doc where
  "r65 = \<lparr>oid = 3, createdAt = 30, updatedAt = 30, conductorId = ''D2'', fecha = 30, bpm = 65\<rparr>"

definition c_luis :: conductor_doc where
  "c_luis = \<lparr>oid = 0, createdAt = 5, updatedAt = 5, nombre = ''Luis'', edad = 41,
             sexo = ''Masculino'', turno = ''Dia'', enfermedad = ''Ninguna''\<rparr>"

definition someW :: world where
  "someW = \<lparr>Conductores = [c_luis], Ritmos = [r72, r80, r65], Brujulas = [], Ubicaciones = [],
         readyState = 1, fault = None, clock = 1000, isoNow = ''1970-01-01T00:00:01.000Z'',
         uptime = 5, next_oid = 4\<rparr>"

definition zeros :: reqbody where
  "zeros = [''conductorId'' \<mapsto> JStr ''D1'', ''bpm'' \<mapsto> JNum 0, ''compass'' \<mapsto> JNum 0,
            ''latitud'' \<mapsto> JNum 0, ''longitud'' \<mapsto> JNum 0]"

definition ana :: "rat \<Rightarrow> string \<Rightarrow> reqbody" where
  "ana a s = [''nombre'' \<mapsto> JStr ''Ana'', ''edad'' \<mapsto> JNum a, ''sexo'' \<mapsto> JStr s,
              ''turno'' \<mapsto> JStr ''Noche'', ''enfermedad'' \<mapsto> JStr ''Ninguna'']"

definition c_ana :: conductor_doc where
  "c_ana = \<lparr>oid = 4, createdAt = 1000, updatedAt = 1000, nombre = ''Ana'', edad = 30,
            sexo = ''Femenino'', turno = ''Noche'', enfermedad = ''Ninguna''\<rparr>"

definition negative_bpm :: reqbody where
  "negative_bpm = [''conductorId'' \<mapsto> JStr ''D1'', ''bpm'' \<mapsto> JNum (-5)]"

definition text_latitud :: reqbody where
  "text_latitud = [''conductorId'' \<mapsto> JStr ''D1'', ''latitud'' \<mapsto> JStr ''abc'',
                   ''longitud'' \<mapsto> JNum 0]"

section \<open>Health\<close>

text \<open>
  C7. \<open>GET /health\<close> always answers 200 with a body of the four keys \<open>status\<close>,
  \<open>mongo\<close>, \<open>uptime\<close> and \<open>now\<close>: \<open>mongo\<close> is \<open>"connected"\<close> exactly when the live
  \<open>readyState\<close> of the connection is 1 and \<open>"disconnected"\<close> otherwise, \<open>uptime\<close> is the
  process uptime and \<open>now\<close> the current time of the server; the state of the service is
  left as it was.
\<close>

theorem health_report:
  "\<exists>c. health w =
         (\<lparr>status = 200,
           body = Json (JObj [(''status'', JStr ''ok''), (''mongo'', JStr c),
                              (''uptime'', JNum (uptime w)), (''now'', JStr (isoNow w))])\<rparr>, w)
        \<and> (c = ''connected'' \<or> c = ''disconnected'')
        \<and> ((c = ''connected'') = (readyState w = 1))"
  by (simp add: health_def json_def)

theorem health_report_witness:
  "health someW =
     (\<lparr>status = 200,
       body = Json (JObj [(''status'', JStr ''ok''), (''mongo'', JStr ''connected''),
                          (''uptime'', JNum 5), (''now'', JStr ''1970-01-01T00:00:01.000Z'')])\<rparr>,
      someW) \<and>
   fst (health (someW\<lparr>readyState := 2\<rparr>)) =
     \<lparr>status = 200,
       body = Json (JObj [(''status'', JStr ''ok''), (''mongo'', JStr ''disconnected''),
                          (''uptime'', JNum 5), (''now'', JStr ''1970-01-01T00:00:01.000Z'')])\<rparr>"
  using health_report [of someW] health_report [of "someW\<lparr>readyState := 2\<rparr>"]
  by (auto simp add: someW_def)

text \<open>The body has no key \<open>storeConnected\<close>: the connectivity is sent under \<open>mongo\<close>.\<close>

theorem health_keys_counterexample:
  "json_keys (body (fst (health someW))) = [''status'', ''mongo'', ''uptime'', ''now''] \<and>
   ''storeConnected'' \<notin> set (json_keys (body (fst (health someW))))"
  by (simp add: health_def json_def)

section \<open>Facts about the models, the sort and the latest lookup\<close>

lemmas save_defs = saveCheck_def firstError_def castOk_def requiredString_def
  requiredNumber_def minNumber_def enumString_def castValue_def castString_def
  castNumber_def trimmed_def

lemma set_sortDesc: "set (sortDesc ds) = set ds"
  by (simp add: sortDesc_def)

lemma mset_sortDesc: "mset (sortDesc ds) = mset ds"
  by (simp add: sortDesc_def)

lemma length_sortDesc: "length (sortDesc ds) = length ds"
  by (simp add: sortDesc_def)

lemma sortDesc_Nil: "sortDesc [] = []"
  by (simp add: sortDesc_def)

lemma sortDesc_single: "sortDesc [d] = [d]"
  by (simp add: sortDesc_def)

lemma recentFirst_sortDesc: "recentFirst (sortDesc ds)"
proof -
  have "sorted (map (\<lambda>d. - int (createdAt d)) (sortDesc ds))"
    unfolding sortDesc_def by (rule sorted_sort_key)
  then show ?thesis
    by (simp add: recentFirst_def sorted_map sorted_wrt_iff_nth_less)
qed

text \<open>A document created strictly later than all the others sorts to the front.\<close>

lemma sortDesc_snoc_latest:
  "\<forall>x\<in>set ds. createdAt x < createdAt d \<Longrightarrow> sortDesc (ds @ [d]) = d # sortDesc ds"
  unfolding sortDesc_def by (induction ds) auto

lemma latestOf_None: "(latestOf cid coll = None) = (\<not> hasReading cid coll)"
proof -
  have "(sortDesc (filter (\<lambda>d. conductorId d = cid) coll) = []) =
        (filter (\<lambda>d. conductorId d = cid) coll = [])"
    using length_sortDesc [of "filter (\<lambda>d. conductorId d = cid) coll"]
    by (metis length_0_conv)
  then show ?thesis
    by (auto simp add: latestOf_def hasReading_def filter_empty_conv split: list.splits)
qed

lemma latestOf_Some:
  assumes "latestOf cid coll = Some d"
  shows "mostRecent cid coll d"
proof -
  let ?ys = "filter (\<lambda>d. conductorId d = cid) coll"
  from assms obtain rest where srt: "sortDesc ?ys = d # rest"
    by (auto simp add: latestOf_def split: list.splits)
  have "d \<in> set (sortDesc ?ys)" using srt by simp
  then have mem: "d \<in> set ?ys" by (simp add: set_sortDesc)
  have "recentFirst (d # rest)"
    using recentFirst_sortDesc [of ?ys] srt by simp
  then have "\<forall>x\<in>set rest. createdAt x \<le> createdAt d" by (simp add: recentFirst_def)
  then have "\<forall>x\<in>set (d # rest). createdAt x \<le> createdAt d" by simp
  then have "\<forall>x\<in>set ?ys. createdAt x \<le> createdAt d"
    using srt set_sortDesc [of ?ys] by metis
  with mem show ?thesis by (auto simp add: mostRecent_def)
qed

lemma latestOf_cases:
  "(\<not> hasReading cid coll \<and> latestOf cid coll = None) \<or>
   (\<exists>d. latestOf cid coll = Some d \<and> mostRecent cid coll d)"
  using latestOf_None [of cid coll] latestOf_Some [of cid coll]
  by (cases "latestOf cid coll") auto

lemma mostRecent_hasReading: "mostRecent cid coll d \<Longrightarrow> hasReading cid coll"
  by (auto simp add: mostRecent_def hasReading_def)

lemma latestOf_only:
  assumes "\<not> hasReading (conductorId d) coll"
  shows "latestOf (conductorId d) (coll @ [d]) = Some d"
proof -
  from assms have "filter (\<lambda>x. conductorId x = conductorId d) coll = []"
    by (simp add: filter_empty_conv hasReading_def)
  then show ?thesis by (simp add: latestOf_def sortDesc_single)
qed

section \<open>Recording a reading\<close>

lemma post_ritmo_zero:
  assumes "fault w = None" "s \<noteq> []" "getprop b ''conductorId'' = JStr s"
    "getprop b ''bpm'' = JNum 0"
  shows "post_ritmo M w b =
     (let d = \<lparr>oid = next_oid w, createdAt = clock w, updatedAt = clock w,
               conductorId = s, fecha = clock w, bpm = 0\<rparr>
      in (\<lparr>status = 201, body = RitmoGuardado ''Ritmo guardado'' d\<rparr>,
          w\<lparr>Ritmos := Ritmos w @ [d], next_oid := Suc (next_oid w)\<rparr>))"
  using assms
  by (simp add: post_ritmo_def Ritmo_save_def Ritmo_errors_def save_defs status_json_def Let_def)

lemma post_brujula_zero:
  assumes "fault w = None" "s \<noteq> []" "getprop b ''conductorId'' = JStr s"
    "getprop b ''compass'' = JNum 0"
  shows "post_brujula M w b =
     (let d = \<lparr>oid = next_oid w, createdAt = clock w, updatedAt = clock w,
               conductorId = s, fecha = clock w, compass = 0\<rparr>
      in (\<lparr>status = 201, body = BrujulaGuardada (''Br'' @ u_acute @ ''jula guardada'') d\<rparr>,
          w\<lparr>Brujulas := Brujulas w @ [d], next_oid := Suc (next_oid w)\<rparr>))"
  using assms
  by (simp add: post_brujula_def Brujula_save_def Brujula_errors_def save_defs status_json_def
        Let_def)

lemma post_ubicacion_zero:
  assumes "fault w = None" "s \<noteq> []" "getprop b ''conductorId'' = JStr s"
    "getprop b ''latitud'' = JNum 0" "getprop b ''longitud'' = JNum 0"
  shows "post_ubicacion M w b =
     (let d = \<lparr>oid = next_oid w, createdAt = clock w, updatedAt = clock w,
               conductorId = s, fecha = clock w, latitud = 0, longitud = 0\<rparr>
      in (\<lparr>status = 201, body = UbicacionGuardada (''Ubicaci'' @ o_acute @ ''n guardada'') d\<rparr>,
          w\<lparr>Ubicaciones := Ubicaciones w @ [d], next_oid := Suc (next_oid w)\<rparr>))"
  using assms
  by (simp add: post_ubicacion_def Ubicacion_save_def Ubicacion_errors_def save_defs
        status_json_def Let_def)

text \<open>
  C1. For each of the three kinds of reading, a POST whose \<open>conductorId\<close> is a non-empty
  string and whose number is exactly 0 (\<open>bpm\<close>, \<open>compass\<close>, or both \<open>latitud\<close> and
  \<open>longitud\<close>) passes the handler's check and, the store answering, is answered 201 with
  the stored reading, which holds the zero.
\<close>

theorem zero_reading_accepted:
  "fault w = None \<Longrightarrow> s \<noteq> [] \<Longrightarrow> getprop b ''conductorId'' = JStr s \<Longrightarrow>
   (getprop b ''bpm'' = JNum 0 \<longrightarrow>
      status (fst (post_ritmo M w b)) = 201 \<and>
      (\<exists>d. body (fst (post_ritmo M w b)) = RitmoGuardado ''Ritmo guardado'' d \<and> bpm d = 0 \<and>
           Ritmos (snd (post_ritmo M w b)) = Ritmos w @ [d])) \<and>
   (getprop b ''compass'' = JNum 0 \<longrightarrow>
      status (fst (post_brujula M w b)) = 201 \<and>
      (\<exists>d m. body (fst (post_brujula M w b)) = BrujulaGuardada m d \<and> compass d = 0 \<and>
           Brujulas (snd (post_brujula M w b)) = Brujulas w @ [d])) \<and>
   (getprop b ''latitud'' = JNum 0 \<and> getprop b ''longitud'' = JNum 0 \<longrightarrow>
      status (fst (post_ubicacion M w b)) = 201 \<and>
      (\<exists>d m. body (fst (post_ubicacion M w b)) = UbicacionGuardada m d \<and> latitud d = 0 \<and>
           longitud d = 0 \<and> Ubicaciones (snd (post_ubicacion M w b)) = Ubicaciones w @ [d]))"
  by (simp add: post_ritmo_zero post_brujula_zero post_ubicacion_zero Let_def)

theorem zero_reading_accepted_witness:
  "fault emptyW = None \<and> getprop zeros ''conductorId'' = JStr ''D1'' \<and>
   getprop zeros ''bpm'' = JNum 0 \<and> getprop zeros ''compass'' = JNum 0 \<and>
   getprop zeros ''latitud'' = JNum 0 \<and> getprop zeros ''longitud'' = JNum 0 \<and>
   status (fst (post_ritmo strictM emptyW zeros)) = 201 \<and>
   status (fst (post_brujula strictM emptyW zeros)) = 201 \<and>
   status (fst (post_ubicacion strictM emptyW zeros)) = 201"
  using zero_reading_accepted [of emptyW "''D1''" zeros strictM]
  by (simp add: emptyW_def zeros_def getprop_def)

text \<open>The two sibling handlers do test the type of their number: anything but a number,
  a string included, is answered 400.\<close>

lemma ritmo_wrong_type_400:
  "typeof (getprop b ''bpm'') \<noteq> ''number'' \<Longrightarrow>
   post_ritmo M w b = (\<lparr>status = 400, body = ErrorMsg ''conductorId y bpm son requeridos''\<rparr>, w)"
  by (simp add: post_ritmo_def status_json_def Let_def)

lemma brujula_wrong_type_400:
  "typeof (getprop b ''compass'') \<noteq> ''number'' \<Longrightarrow>
   post_brujula M w b =
     (\<lparr>status = 400, body = ErrorMsg ''conductorId y compass son requeridos''\<rparr>, w)"
  by (simp add: post_brujula_def status_json_def Let_def)

lemma reading_without_conductorId_400:
  "\<not> truthy (getprop b ''conductorId'') \<Longrightarrow>
   status (fst (post_ritmo M w b)) = 400 \<and> status (fst (post_brujula M w b)) = 400 \<and>
   status (fst (post_ubicacion M w b)) = 400"
  by (simp add: post_ritmo_def post_brujula_def post_ubicacion_def status_json_def Let_def)

text \<open>
  C6. A request to \<open>POST /ubicacion\<close> whose \<open>latitud\<close> is a string (with a \<open>conductorId\<close>
  and some \<open>longitud\<close>) is never answered 400: the handler only compares the two
  coordinates with \<open>undefined\<close>, so the request reaches the model and is answered 201 or
  500, and 500 with a \<open>SchemaViolation\<close> on \<open>latitud\<close> when the library cannot convert
  the string.
\<close>

theorem ubicacion_wrong_type_not_400:
  "truthy (getprop b ''conductorId'') \<Longrightarrow> getprop b ''latitud'' = JStr s \<Longrightarrow>
   getprop b ''longitud'' \<noteq> JUndefined \<Longrightarrow>
   status (fst (post_ubicacion M w b)) \<noteq> 400 \<and>
   (status (fst (post_ubicacion M w b)) = 201 \<or> status (fst (post_ubicacion M w b)) = 500) \<and>
   (convNumber M (JStr s) = CastFailed \<longrightarrow>
      (\<exists>errs. post_ubicacion M w b =
                 (\<lparr>status = 500, body = ErrorThrown (SchemaViolation errs)\<rparr>, w)
         \<and> (''latitud'', CastErr) \<in> set errs))"
  by (auto simp add: post_ubicacion_def Ubicacion_save_def Ubicacion_errors_def save_defs
        status_json_def Let_def split: list.splits option.splits cast.splits)

theorem ubicacion_wrong_type_not_400_witness:
  "truthy (getprop text_latitud ''conductorId'') \<and>
   getprop text_latitud ''latitud'' = JStr ''abc'' \<and>
   getprop text_latitud ''longitud'' \<noteq> JUndefined \<and>
   post_ubicacion strictM emptyW text_latitud =
     (\<lparr>status = 500, body = ErrorThrown (SchemaViolation [(''latitud'', CastErr)])\<rparr>, emptyW)"
  using ubicacion_wrong_type_not_400 [of text_latitud "''abc''" strictM emptyW]
  by (simp add: text_latitud_def getprop_def strictM_def post_ubicacion_def Ubicacion_save_def
        Ubicacion_errors_def save_defs status_json_def Let_def)

text \<open>
  C10. The handlers do not check ranges or enumerations. A \<open>POST /ritmo\<close> with a
  \<open>conductorId\<close> and a negative number as \<open>bpm\<close> passes the handler's check and fails in
  the model's validation (\<open>min: 0\<close>); a \<open>POST /conductor\<close> with five truthy fields whose
  \<open>sexo\<close> is a non-empty string outside the enumeration fails there too (\<open>enum\<close>). Both
  are answered 500 with the validation error, not 400, and nothing is stored.
\<close>

theorem range_and_enum_unchecked_by_handlers:
  "(truthy (getprop b ''conductorId'') \<and> getprop b ''bpm'' = JNum n \<and> n < 0 \<longrightarrow>
      (\<exists>errs. post_ritmo M w b =
                 (\<lparr>status = 500, body = ErrorThrown (SchemaViolation errs)\<rparr>, w)
          \<and> (''bpm'', MinErr) \<in> set errs)) \<and>
   (truthy (getprop b ''nombre'') \<and> truthy (getprop b ''edad'') \<and> getprop b ''sexo'' = JStr s
      \<and> s \<noteq> [] \<and> s \<noteq> ''Masculino'' \<and> s \<noteq> ''Femenino''
      \<and> truthy (getprop b ''turno'') \<and> truthy (getprop b ''enfermedad'') \<longrightarrow>
      (\<exists>errs. post_conductor M w b =
                 (\<lparr>status = 500, body = ErrorThrown (SchemaViolation errs)\<rparr>, w)
          \<and> (''sexo'', EnumErr) \<in> set errs))"
  by (auto simp add: post_ritmo_def Ritmo_save_def Ritmo_errors_def
       post_conductor_def Conductor_save_def Conductor_errors_def save_defs status_json_def Let_def
       split: list.splits)

theorem range_and_enum_unchecked_by_handlers_witness:
  "truthy (getprop negative_bpm ''conductorId'') \<and> getprop negative_bpm ''bpm'' = JNum (-5) \<and>
   post_ritmo strictM emptyW negative_bpm =
     (\<lparr>status = 500, body = ErrorThrown (SchemaViolation [(''bpm'', MinErr)])\<rparr>, emptyW) \<and>
   getprop (ana 30 ''Otro'') ''sexo'' = JStr ''Otro'' \<and>
   post_conductor strictM emptyW (ana 30 ''Otro'') =
     (\<lparr>status = 500, body = ErrorThrown (SchemaViolation [(''sexo'', EnumErr)])\<rparr>, emptyW)"
  using range_and_enum_unchecked_by_handlers [of negative_bpm "-5" strictM emptyW "''Otro''"]
    range_and_enum_unchecked_by_handlers [of "ana 30 ''Otro''" 0 strictM emptyW "''Otro''"]
  by (simp add: negative_bpm_def ana_def getprop_def post_ritmo_def Ritmo_save_def
        Ritmo_errors_def post_conductor_def Conductor_save_def Conductor_errors_def save_defs
        trim_def is_space_def status_json_def Let_def)

section \<open>Registering a driver\<close>

text \<open>The handler answers 400 exactly when one of the five fields is falsy: missing,
  \<open>null\<close>, \<open>false\<close>, the empty string, or the number 0.\<close>

lemma post_conductor_400_iff:
  "(status (fst (post_conductor M w b)) = 400) =
   (\<not> (truthy (getprop b ''nombre'') \<and> truthy (getprop b ''edad'') \<and> truthy (getprop b ''sexo'')
       \<and> truthy (getprop b ''turno'') \<and> truthy (getprop b ''enfermedad'')))"
  by (auto simp add: post_conductor_def status_json_def Let_def split: sum.splits)

text \<open>A payload of strings and a positive number that satisfies the schema is stored and
  answered 201 with the new document, its identity and its creation time.\<close>

lemma post_conductor_created:
  assumes "fault w = None"
    and "getprop b ''nombre'' = JStr n" "trim n \<noteq> []"
    and "getprop b ''edad'' = JNum a" "0 < a"
    and "getprop b ''sexo'' = JStr s" "s = ''Masculino'' \<or> s = ''Femenino''"
    and "getprop b ''turno'' = JStr t" "t \<noteq> []"
    and "getprop b ''enfermedad'' = JStr f" "f \<noteq> []"
  shows "post_conductor M w b =
     (let d = \<lparr>oid = next_oid w, createdAt = clock w, updatedAt = clock w,
               nombre = trim n, edad = a, sexo = s, turno = t, enfermedad = f\<rparr>
      in (\<lparr>status = 201, body = ConductorCreado ''Conductor creado'' d\<rparr>,
          w\<lparr>Conductores := Conductores w @ [d], next_oid := Suc (next_oid w)\<rparr>))"
proof -
  from assms(3) have "n \<noteq> []" by (auto simp add: trim_def)
  with assms show ?thesis
    by (auto simp add: post_conductor_def Conductor_save_def Conductor_errors_def save_defs
          status_json_def Let_def)
qed

text \<open>
  C2. A request to \<open>POST /conductor\<close> whose \<open>edad\<close> is the number 0 is answered 400 with
  the message for missing fields, whatever the other fields hold, and nothing is stored:
  the handler tests \<open>!edad\<close>, and \<open>!0\<close> is true. The schema's \<open>min: 0\<close> would accept it.
\<close>

theorem conductor_edad_zero_rejected:
  "getprop b ''edad'' = JNum 0 \<Longrightarrow>
   post_conductor M w b =
     (\<lparr>status = 400, body = ErrorMsg ''Todos los campos son requeridos''\<rparr>, w)"
  by (simp add: post_conductor_def status_json_def Let_def)

theorem conductor_edad_zero_rejected_witness:
  "getprop (ana 0 ''Femenino'') ''edad'' = JNum 0 \<and>
   post_conductor strictM emptyW (ana 0 ''Femenino'') =
     (\<lparr>status = 400, body = ErrorMsg ''Todos los campos son requeridos''\<rparr>, emptyW) \<and>
   Conductor_errors (Cast ''Ana'') (Cast 0) (Cast ''Femenino'') (Cast ''Noche'') (Cast ''Ninguna'')
     = []"
  using conductor_edad_zero_rejected [of "ana 0 ''Femenino''" strictM emptyW]
  by (simp add: ana_def getprop_def Conductor_errors_def save_defs)

section \<open>The latest reading of a driver\<close>

lemma get_ritmo_latest_cases:
  assumes "fault w = None"
  shows "(\<not> hasReading cid (Ritmos w) \<and>
            get_ritmo_latest w cid = (\<lparr>status = 404, body = ErrorMsg ''Sin lecturas de ritmo''\<rparr>, w)) \<or>
         (\<exists>d. mostRecent cid (Ritmos w) d \<and>
            get_ritmo_latest w cid = (\<lparr>status = 200, body = RitmoDoc d\<rparr>, w))"
  using latestOf_cases [of cid "Ritmos w"] assms
  by (auto simp add: get_ritmo_latest_def findOneSorted_def query_def status_json_def json_def)

lemma get_brujula_latest_cases:
  assumes "fault w = None"
  shows "(\<not> hasReading cid (Brujulas w) \<and>
            get_brujula_latest w cid =
              (\<lparr>status = 404, body = ErrorMsg (''Sin lecturas de br'' @ u_acute @ ''jula'')\<rparr>, w)) \<or>
         (\<exists>d. mostRecent cid (Brujulas w) d \<and>
            get_brujula_latest w cid = (\<lparr>status = 200, body = BrujulaDoc d\<rparr>, w))"
  using latestOf_cases [of cid "Brujulas w"] assms
  by (auto simp add: get_brujula_latest_def findOneSorted_def query_def status_json_def json_def)

lemma get_ubicacion_latest_cases:
  assumes "fault w = None"
  shows "(\<not> hasReading cid (Ubicaciones w) \<and>
            get_ubicacion_latest w cid =
              (\<lparr>status = 404, body = ErrorMsg (''Sin lecturas de ubicaci'' @ o_acute @ ''n'')\<rparr>, w)) \<or>
         (\<exists>d. mostRecent cid (Ubicaciones w) d \<and>
            get_ubicacion_latest w cid = (\<lparr>status = 200, body = UbicacionDoc d\<rparr>, w))"
  using latestOf_cases [of cid "Ubicaciones w"] assms
  by (auto simp add: get_ubicacion_latest_def findOneSorted_def query_def status_json_def json_def)

lemma post_ritmo_201:
  assumes "post_ritmo M w b = (\<lparr>status = 201, body = RitmoGuardado m d\<rparr>, w')"
  shows "fault w' = None \<and> Ritmos w' = Ritmos w @ [d]"
  using assms
  by (auto simp add: post_ritmo_def Ritmo_save_def saveCheck_def status_json_def Let_def
        split: if_splits option.splits)

lemma post_brujula_201:
  assumes "post_brujula M w b = (\<lparr>status = 201, body = BrujulaGuardada m d\<rparr>, w')"
  shows "fault w' = None \<and> Brujulas w' = Brujulas w @ [d]"
  using assms
  by (auto simp add: post_brujula_def Brujula_save_def saveCheck_def status_json_def Let_def
        split: if_splits option.splits)

lemma post_ubicacion_201:
  assumes "post_ubicacion M w b = (\<lparr>status = 201, body = UbicacionGuardada m d\<rparr>, w')"
  shows "fault w' = None \<and> Ubicaciones w' = Ubicaciones w @ [d]"
  using assms
  by (auto simp add: post_ubicacion_def Ubicacion_save_def saveCheck_def status_json_def Let_def
        split: if_splits option.splits)

lemma first_ritmo_is_latest:
  assumes "post_ritmo M w b = (\<lparr>status = 201, body = RitmoGuardado m d\<rparr>, w')"
    and "\<not> hasReading (conductorId d) (Ritmos w)"
  shows "get_ritmo_latest w' (conductorId d) = (\<lparr>status = 200, body = RitmoDoc d\<rparr>, w')"
  using post_ritmo_201 [OF assms(1)] latestOf_only [OF assms(2)]
  by (simp add: get_ritmo_latest_def findOneSorted_def query_def json_def)

lemma first_brujula_is_latest:
  assumes "post_brujula M w b = (\<lparr>status = 201, body = BrujulaGuardada m d\<rparr>, w')"
    and "\<not> hasReading (conductorId d) (Brujulas w)"
  shows "get_brujula_latest w' (conductorId d) = (\<lparr>status = 200, body = BrujulaDoc d\<rparr>, w')"
  using post_brujula_201 [OF assms(1)] latestOf_only [OF assms(2)]
  by (simp add: get_brujula_latest_def findOneSorted_def query_def json_def)

lemma first_ubicacion_is_latest:
  assumes "post_ubicacion M w b = (\<lparr>status = 201, body = UbicacionGuardada m d\<rparr>, w')"
    and "\<not> hasReading (conductorId d) (Ubicaciones w)"
  shows "get_ubicacion_latest w' (conductorId d) = (\<lparr>status = 200, body = UbicacionDoc d\<rparr>, w')"
  using post_ubicacion_201 [OF assms(1)] latestOf_only [OF assms(2)]
  by (simp add: get_ubicacion_latest_def findOneSorted_def query_def json_def)

text \<open>
  C4. For each kind of reading and a store that answers, the latest-reading handler
  answers 404 exactly when the driver has no reading of that kind; when the driver has
  readings it answers 200 with a most recent one of the driver's; and when a reading is
  recorded for a driver who had none of that kind, the handler then returns exactly that
  reading.
\<close>

theorem latest_reading_per_kind:
  "fault w = None \<Longrightarrow>
   ((status (fst (get_ritmo_latest w cid)) = 404) = (\<not> hasReading cid (Ritmos w))) \<and>
   ((status (fst (get_brujula_latest w cid)) = 404) = (\<not> hasReading cid (Brujulas w))) \<and>
   ((status (fst (get_ubicacion_latest w cid)) = 404) = (\<not> hasReading cid (Ubicaciones w))) \<and>
   (hasReading cid (Ritmos w) \<longrightarrow>
      (\<exists>d. get_ritmo_latest w cid = (\<lparr>status = 200, body = RitmoDoc d\<rparr>, w) \<and>
           mostRecent cid (Ritmos w) d)) \<and>
   (hasReading cid (Brujulas w) \<longrightarrow>
      (\<exists>d. get_brujula_latest w cid = (\<lparr>status = 200, body = BrujulaDoc d\<rparr>, w) \<and>
           mostRecent cid (Brujulas w) d)) \<and>
   (hasReading cid (Ubicaciones w) \<longrightarrow>
      (\<exists>d. get_ubicacion_latest w cid = (\<lparr>status = 200, body = UbicacionDoc d\<rparr>, w) \<and>
           mostRecent cid (Ubicaciones w) d)) \<and>
   (post_ritmo M w b = (\<lparr>status = 201, body = RitmoGuardado m r\<rparr>, wa) \<and>
      \<not> hasReading (conductorId r) (Ritmos w) \<longrightarrow>
      get_ritmo_latest wa (conductorId r) = (\<lparr>status = 200, body = RitmoDoc r\<rparr>, wa)) \<and>
   (post_brujula M w b = (\<lparr>status = 201, body = BrujulaGuardada m' k\<rparr>, wb) \<and>
      \<not> hasReading (conductorId k) (Brujulas w) \<longrightarrow>
      get_brujula_latest wb (conductorId k) = (\<lparr>status = 200, body = BrujulaDoc k\<rparr>, wb)) \<and>
   (post_ubicacion M w b = (\<lparr>status = 201, body = UbicacionGuardada m'' u\<rparr>, wc) \<and>
      \<not> hasReading (conductorId u) (Ubicaciones w) \<longrightarrow>
      get_ubicacion_latest wc (conductorId u) = (\<lparr>status = 200, body = UbicacionDoc u\<rparr>, wc))"
proof -
  assume up: "fault w = None"
  note r = get_ritmo_latest_cases [OF up, of cid]
  note k = get_brujula_latest_cases [OF up, of cid]
  note u = get_ubicacion_latest_cases [OF up, of cid]
  have a1: "(status (fst (get_ritmo_latest w cid)) = 404) = (\<not> hasReading cid (Ritmos w))"
    using r by (auto dest: mostRecent_hasReading)
  have a2: "(status (fst (get_brujula_latest w cid)) = 404) = (\<not> hasReading cid (Brujulas w))"
    using k by (auto dest: mostRecent_hasReading)
  have a3: "(status (fst (get_ubicacion_latest w cid)) = 404) = (\<not> hasReading cid (Ubicaciones w))"
    using u by (auto dest: mostRecent_hasReading)
  have b1: "hasReading cid (Ritmos w) \<longrightarrow>
      (\<exists>d. get_ritmo_latest w cid = (\<lparr>status = 200, body = RitmoDoc d\<rparr>, w) \<and>
           mostRecent cid (Ritmos w) d)"
    using r by auto
  have b2: "hasReading cid (Brujulas w) \<longrightarrow>
      (\<exists>d. get_brujula_latest w cid = (\<lparr>status = 200, body = BrujulaDoc d\<rparr>, w) \<and>
           mostRecent cid (Brujulas w) d)"
    using k by auto
  have b3: "hasReading cid (Ubicaciones w) \<longrightarrow>
      (\<exists>d. get_ubicacion_latest w cid = (\<lparr>status = 200, body = UbicacionDoc d\<rparr>, w) \<and>
           mostRecent cid (Ubicaciones w) d)"
    using u by auto
  show ?thesis
    using a1 a2 a3 b1 b2 b3 first_ritmo_is_latest first_brujula_is_latest first_ubicacion_is_latest
    by blast
qed

theorem latest_reading_per_kind_witness:
  "fault someW = None \<and> hasReading ''D1'' (Ritmos someW) \<and>
   get_ritmo_latest someW ''D1'' = (\<lparr>status = 200, body = RitmoDoc r80\<rparr>, someW) \<and>
   status (fst (get_brujula_latest someW ''D1'')) = 404 \<and>
   status (fst (get_ubicacion_latest someW ''D1'')) = 404 \<and>
   status (fst (get_ritmo_latest emptyW ''D1'')) = 404 \<and>
   (\<exists>r wa. post_ritmo strictM emptyW zeros = (\<lparr>status = 201, body = RitmoGuardado ''Ritmo guardado'' r\<rparr>, wa)
      \<and> get_ritmo_latest wa ''D1'' = (\<lparr>status = 200, body = RitmoDoc r\<rparr>, wa))"
proof -
  have up: "fault someW = None" by (simp add: someW_def)
  have has: "hasReading ''D1'' (Ritmos someW)" by (simp add: hasReading_def someW_def r72_def)
  have latest: "latestOf ''D1'' (Ritmos someW) = Some r80"
    by (simp add: latestOf_def sortDesc_def someW_def r72_def r80_def r65_def)
  have a: "get_ritmo_latest someW ''D1'' = (\<lparr>status = 200, body = RitmoDoc r80\<rparr>, someW)"
    using latest up by (simp add: get_ritmo_latest_def findOneSorted_def query_def json_def)
  have none_b: "\<not> hasReading ''D1'' (Brujulas someW)" and none_u: "\<not> hasReading ''D1'' (Ubicaciones someW)"
    by (simp_all add: hasReading_def someW_def)
  have b: "status (fst (get_brujula_latest someW ''D1'')) = 404"
    and c: "status (fst (get_ubicacion_latest someW ''D1'')) = 404"
    using latest_reading_per_kind [OF up, of "''D1''"] none_b none_u by simp_all
  have up0: "fault emptyW = None" and none0: "\<not> hasReading ''D1'' (Ritmos emptyW)"
    by (simp_all add: emptyW_def hasReading_def)
  have d: "status (fst (get_ritmo_latest emptyW ''D1'')) = 404"
    using latest_reading_per_kind [OF up0, of "''D1''"] none0 by simp
  let ?r = "\<lparr>oid = next_oid emptyW, createdAt = clock emptyW, updatedAt = clock emptyW,
             conductorId = ''D1'', fecha = clock emptyW, bpm = 0\<rparr>"
  let ?wa = "emptyW\<lparr>Ritmos := Ritmos emptyW @ [?r], next_oid := Suc (next_oid emptyW)\<rparr>"
  have post: "post_ritmo strictM emptyW zeros =
     (\<lparr>status = 201, body = RitmoGuardado ''Ritmo guardado'' ?r\<rparr>, ?wa)"
    using post_ritmo_zero [of emptyW "''D1''" zeros strictM] up0
    by (simp add: zeros_def getprop_def Let_def)
  have "get_ritmo_latest ?wa (conductorId ?r) = (\<lparr>status = 200, body = RitmoDoc ?r\<rparr>, ?wa)"
    using latest_reading_per_kind [OF up0, of "''D1''" strictM zeros "''Ritmo guardado''" ?r ?wa]
      post none0 by simp
  then have e: "get_ritmo_latest ?wa ''D1'' = (\<lparr>status = 200, body = RitmoDoc ?r\<rparr>, ?wa)"
    by simp
  from up has a b c d post e show ?thesis by blast
qed

section \<open>The combined latest reading\<close>

lemma get_lectura_latest_eq:
  assumes "fault w = None"
  shows "get_lectura_latest w cid =
     (if latestOf cid (Ritmos w) = None \<and> latestOf cid (Brujulas w) = None
         \<and> latestOf cid (Ubicaciones w) = None
      then (\<lparr>status = 404, body = ErrorMsg ''No hay lecturas para este conductor''\<rparr>, w)
      else (\<lparr>status = 200, body = Lectura cid
              (case latestOf cid (Ritmos w) of Some r \<Rightarrow> Some (bpm r, fecha r) | None \<Rightarrow> None)
              (case latestOf cid (Brujulas w) of Some r \<Rightarrow> Some (compass r, fecha r) | None \<Rightarrow> None)
              (case latestOf cid (Ubicaciones w) of Some r \<Rightarrow> Some (latitud r, longitud r, fecha r)
               | None \<Rightarrow> None)\<rparr>, w))"
  using assms
  by (simp add: get_lectura_latest_def findOneSorted_def query_def status_json_def json_def)

lemma ritmo_field:
  "(case (case latestOf cid coll of Some r \<Rightarrow> Some (bpm r, fecha r) | None \<Rightarrow> None) of
      None \<Rightarrow> \<not> hasReading cid coll
    | Some (v, t) \<Rightarrow> \<exists>d. mostRecent cid coll d \<and> v = bpm d \<and> t = fecha d)"
  using latestOf_cases [of cid coll] by auto

lemma brujula_field:
  "(case (case latestOf cid coll of Some r \<Rightarrow> Some (compass r, fecha r) | None \<Rightarrow> None) of
      None \<Rightarrow> \<not> hasReading cid coll
    | Some (v, t) \<Rightarrow> \<exists>d. mostRecent cid coll d \<and> v = compass d \<and> t = fecha d)"
  using latestOf_cases [of cid coll] by auto

lemma ubicacion_field:
  "(case (case latestOf cid coll of Some r \<Rightarrow> Some (latitud r, longitud r, fecha r) | None \<Rightarrow> None) of
      None \<Rightarrow> \<not> hasReading cid coll
    | Some (la, lo, t) \<Rightarrow> \<exists>d. mostRecent cid coll d \<and> la = latitud d \<and> lo = longitud d \<and> t = fecha d)"
  using latestOf_cases [of cid coll] by auto

text \<open>
  C3. For a store that answers, \<open>GET /lectura/:conductorId/latest\<close> answers 404 exactly
  when the driver has no heart-rate, no compass and no location reading. Otherwise it
  answers 200 with the \<open>conductorId\<close> and three fields, each of them \<open>null\<close> when the
  driver has no reading of that kind and otherwise the value and \<open>fecha\<close> of a most recent
  reading of that kind; a driver with heart-rate readings only gets the latest of them
  and \<open>null\<close> twice.
\<close>

theorem combined_latest:
  "fault w = None \<Longrightarrow>
   ((status (fst (get_lectura_latest w cid)) = 404) =
      (\<not> hasReading cid (Ritmos w) \<and> \<not> hasReading cid (Brujulas w)
       \<and> \<not> hasReading cid (Ubicaciones w))) \<and>
   (hasReading cid (Ritmos w) \<or> hasReading cid (Brujulas w) \<or> hasReading cid (Ubicaciones w) \<longrightarrow>
      (\<exists>r k u. get_lectura_latest w cid = (\<lparr>status = 200, body = Lectura cid r k u\<rparr>, w) \<and>
         (case r of None \<Rightarrow> \<not> hasReading cid (Ritmos w)
          | Some (v, t) \<Rightarrow> \<exists>d. mostRecent cid (Ritmos w) d \<and> v = bpm d \<and> t = fecha d) \<and>
         (case k of None \<Rightarrow> \<not> hasReading cid (Brujulas w)
          | Some (v, t) \<Rightarrow> \<exists>d. mostRecent cid (Brujulas w) d \<and> v = compass d \<and> t = fecha d) \<and>
         (case u of None \<Rightarrow> \<not> hasReading cid (Ubicaciones w)
          | Some (la, lo, t) \<Rightarrow>
              \<exists>d. mostRecent cid (Ubicaciones w) d \<and> la = latitud d \<and> lo = longitud d
                   \<and> t = fecha d))) \<and>
   (hasReading cid (Ritmos w) \<and> \<not> hasReading cid (Brujulas w)
      \<and> \<not> hasReading cid (Ubicaciones w) \<longrightarrow>
      (\<exists>d. mostRecent cid (Ritmos w) d \<and>
           get_lectura_latest w cid =
             (\<lparr>status = 200, body = Lectura cid (Some (bpm d, fecha d)) None None\<rparr>, w)))"
proof -
  assume up: "fault w = None"
  note eq = get_lectura_latest_eq [OF up, of cid]
  have a: "(status (fst (get_lectura_latest w cid)) = 404) =
      (\<not> hasReading cid (Ritmos w) \<and> \<not> hasReading cid (Brujulas w)
       \<and> \<not> hasReading cid (Ubicaciones w))"
    by (simp add: eq latestOf_None)
  have b: "hasReading cid (Ritmos w) \<or> hasReading cid (Brujulas w) \<or> hasReading cid (Ubicaciones w) \<longrightarrow>
      (\<exists>r k u. get_lectura_latest w cid = (\<lparr>status = 200, body = Lectura cid r k u\<rparr>, w) \<and>
         (case r of None \<Rightarrow> \<not> hasReading cid (Ritmos w)
          | Some (v, t) \<Rightarrow> \<exists>d. mostRecent cid (Ritmos w) d \<and> v = bpm d \<and> t = fecha d) \<and>
         (case k of None \<Rightarrow> \<not> hasReading cid (Brujulas w)
          | Some (v, t) \<Rightarrow> \<exists>d. mostRecent cid (Brujulas w) d \<and> v = compass d \<and> t = fecha d) \<and>
         (case u of None \<Rightarrow> \<not> hasReading cid (Ubicaciones w)
          | Some (la, lo, t) \<Rightarrow>
              \<exists>d. mostRecent cid (Ubicaciones w) d \<and> la = latitud d \<and> lo = longitud d
                   \<and> t = fecha d))"
  proof
    assume "hasReading cid (Ritmos w) \<or> hasReading cid (Brujulas w) \<or> hasReading cid (Ubicaciones w)"
    then have "\<not> (latestOf cid (Ritmos w) = None \<and> latestOf cid (Brujulas w) = None
         \<and> latestOf cid (Ubicaciones w) = None)"
      by (simp add: latestOf_None)
    then have "get_lectura_latest w cid = (\<lparr>status = 200, body = Lectura cid
              (case latestOf cid (Ritmos w) of Some r \<Rightarrow> Some (bpm r, fecha r) | None \<Rightarrow> None)
              (case latestOf cid (Brujulas w) of Some r \<Rightarrow> Some (compass r, fecha r) | None \<Rightarrow> None)
              (case latestOf cid (Ubicaciones w) of Some r \<Rightarrow> Some (latitud r, longitud r, fecha r)
               | None \<Rightarrow> None)\<rparr>, w)"
      using eq by simp
    then show "\<exists>r k u. get_lectura_latest w cid = (\<lparr>status = 200, body = Lectura cid r k u\<rparr>, w) \<and>
         (case r of None \<Rightarrow> \<not> hasReading cid (Ritmos w)
          | Some (v, t) \<Rightarrow> \<exists>d. mostRecent cid (Ritmos w) d \<and> v = bpm d \<and> t = fecha d) \<and>
         (case k of None \<Rightarrow> \<not> hasReading cid (Brujulas w)
          | Some (v, t) \<Rightarrow> \<exists>d. mostRecent cid (Brujulas w) d \<and> v = compass d \<and> t = fecha d) \<and>
         (case u of None \<Rightarrow> \<not> hasReading cid (Ubicaciones w)
          | Some (la, lo, t) \<Rightarrow>
              \<exists>d. mostRecent cid (Ubicaciones w) d \<and> la = latitud d \<and> lo = longitud d
                   \<and> t = fecha d)"
      using ritmo_field [of cid "Ritmos w"] brujula_field [of cid "Brujulas w"]
        ubicacion_field [of cid "Ubicaciones w"]
      by blast
  qed
  have c: "hasReading cid (Ritmos w) \<and> \<not> hasReading cid (Brujulas w)
      \<and> \<not> hasReading cid (Ubicaciones w) \<longrightarrow>
      (\<exists>d. mostRecent cid (Ritmos w) d \<and>
           get_lectura_latest w cid =
             (\<lparr>status = 200, body = Lectura cid (Some (bpm d, fecha d)) None None\<rparr>, w))"
    using latestOf_cases [of cid "Ritmos w"] latestOf_None [of cid "Brujulas w"]
      latestOf_None [of cid "Ubicaciones w"]
    by (auto simp add: eq)
  from a b c show ?thesis by blast
qed

theorem combined_latest_witness:
  "fault someW = None \<and> hasReading ''D1'' (Ritmos someW) \<and>
   \<not> hasReading ''D1'' (Brujulas someW) \<and> \<not> hasReading ''D1'' (Ubicaciones someW) \<and>
   get_lectura_latest someW ''D1'' =
     (\<lparr>status = 200, body = Lectura ''D1'' (Some (80, 20)) None None\<rparr>, someW) \<and>
   status (fst (get_lectura_latest someW ''D9'')) = 404"
proof -
  have up: "fault someW = None" by (simp add: someW_def)
  have h1: "hasReading ''D1'' (Ritmos someW)" by (simp add: hasReading_def someW_def r72_def)
  have h2: "\<not> hasReading ''D1'' (Brujulas someW)" "\<not> hasReading ''D1'' (Ubicaciones someW)"
    by (simp_all add: hasReading_def someW_def)
  have h9: "\<not> hasReading ''D9'' (Ritmos someW)" "\<not> hasReading ''D9'' (Brujulas someW)"
    "\<not> hasReading ''D9'' (Ubicaciones someW)"
    by (simp_all add: hasReading_def someW_def r72_def r80_def r65_def)
  have latest: "latestOf ''D1'' (Ritmos someW) = Some r80"
    by (simp add: latestOf_def sortDesc_def someW_def r72_def r80_def r65_def)
  have a: "get_lectura_latest someW ''D1'' =
     (\<lparr>status = 200, body = Lectura ''D1'' (Some (80, 20)) None None\<rparr>, someW)"
  proof -
    have n: "latestOf ''D1'' (Brujulas someW) = None" "latestOf ''D1'' (Ubicaciones someW) = None"
      using h2 by (simp_all add: latestOf_None)
    show ?thesis
      using latest n up by (simp add: get_lectura_latest_eq r80_def)
  qed
  have b: "status (fst (get_lectura_latest someW ''D9'')) = 404"
    using combined_latest [OF up, of "''D9''"] h9 by simp
  from up h1 h2 a b show ?thesis by blast
qed

section \<open>The bulk delete\<close>

lemma delete_conductor_all_up:
  assumes "fault w = None"
  shows "delete_conductor_all w =
     (\<lparr>status = 200, body = Borrados ''Todos los conductores y lecturas han sido borrados''
         (length (Conductores w)) (length (Ritmos w)) (length (Brujulas w))
         (length (Ubicaciones w))\<rparr>,
      w\<lparr>Conductores := [], Ritmos := [], Brujulas := [], Ubicaciones := []\<rparr>)"
  using assms by (simp add: delete_conductor_all_def query_def json_def Let_def)

lemma lists_of_empty:
  assumes "fault w = None"
  shows "Conductores w = [] \<Longrightarrow> get_conductor_all w = (\<lparr>status = 200, body = ConductorList 0 []\<rparr>, w)"
    and "Ritmos w = [] \<Longrightarrow> get_ritmo_all w = (\<lparr>status = 200, body = RitmoList 0 []\<rparr>, w)"
    and "Brujulas w = [] \<Longrightarrow> get_brujula_all w = (\<lparr>status = 200, body = BrujulaList 0 []\<rparr>, w)"
    and "Ubicaciones w = [] \<Longrightarrow> get_ubicacion_all w = (\<lparr>status = 200, body = UbicacionList 0 []\<rparr>, w)"
  using assms
  by (simp_all add: get_conductor_all_def get_ritmo_all_def get_brujula_all_def
        get_ubicacion_all_def findSorted_def query_def json_def sortDesc_Nil)

text \<open>
  C5. For a store that answers, \<open>DELETE /conductor/all\<close> asks nothing of the request,
  answers 200 with the number of documents each of the four collections held, and leaves
  the four collections empty; each of the four listings then answers an empty \<open>data\<close>
  with \<open>total\<close> 0.
\<close>

theorem purge_all_empties_every_list:
  "fault w = None \<Longrightarrow>
   (\<exists>w'. delete_conductor_all w =
       (\<lparr>status = 200, body = Borrados ''Todos los conductores y lecturas han sido borrados''
           (length (Conductores w)) (length (Ritmos w)) (length (Brujulas w))
           (length (Ubicaciones w))\<rparr>, w') \<and>
     Conductores w' = [] \<and> Ritmos w' = [] \<and> Brujulas w' = [] \<and> Ubicaciones w' = [] \<and>
     get_conductor_all w' = (\<lparr>status = 200, body = ConductorList 0 []\<rparr>, w') \<and>
     get_ritmo_all w' = (\<lparr>status = 200, body = RitmoList 0 []\<rparr>, w') \<and>
     get_brujula_all w' = (\<lparr>status = 200, body = BrujulaList 0 []\<rparr>, w') \<and>
     get_ubicacion_all w' = (\<lparr>status = 200, body = UbicacionList 0 []\<rparr>, w'))"
proof -
  assume up: "fault w = None"
  let ?w' = "w\<lparr>Conductores := [], Ritmos := [], Brujulas := [], Ubicaciones := []\<rparr>"
  have up': "fault ?w' = None" using up by simp
  show ?thesis
    using delete_conductor_all_up [OF up] lists_of_empty [OF up'] by simp
qed

theorem purge_all_empties_every_list_witness:
  "fault someW = None \<and>
   fst (delete_conductor_all someW) =
     \<lparr>status = 200, body = Borrados ''Todos los conductores y lecturas han sido borrados'' 1 3 0 0\<rparr> \<and>
   get_ritmo_all (snd (delete_conductor_all someW)) =
     (\<lparr>status = 200, body = RitmoList 0 []\<rparr>, snd (delete_conductor_all someW)) \<and>
   get_conductor_all (snd (delete_conductor_all someW)) =
     (\<lparr>status = 200, body = ConductorList 0 []\<rparr>, snd (delete_conductor_all someW))"
proof -
  have up: "fault someW = None" by (simp add: someW_def)
  have len: "length (Conductores someW) = 1" "length (Ritmos someW) = 3"
    "length (Brujulas someW) = 0" "length (Ubicaciones someW) = 0"
    by (simp_all add: someW_def)
  from purge_all_empties_every_list [OF up] obtain w' where
    "delete_conductor_all someW =
       (\<lparr>status = 200, body = Borrados ''Todos los conductores y lecturas han sido borrados''
           (length (Conductores someW)) (length (Ritmos someW)) (length (Brujulas someW))
           (length (Ubicaciones someW))\<rparr>, w')"
    "get_conductor_all w' = (\<lparr>status = 200, body = ConductorList 0 []\<rparr>, w')"
    "get_ritmo_all w' = (\<lparr>status = 200, body = RitmoList 0 []\<rparr>, w')"
    by blast
  then show ?thesis using up len by simp
qed

section \<open>The listings\<close>

lemma get_conductor_all_up:
  "fault w = None \<Longrightarrow>
   get_conductor_all w =
     (\<lparr>status = 200, body = ConductorList (length (Conductores w)) (sortDesc (Conductores w))\<rparr>, w)"
  by (simp add: get_conductor_all_def findSorted_def query_def json_def length_sortDesc)

lemma get_ritmo_all_up:
  "fault w = None \<Longrightarrow>
   get_ritmo_all w =
     (\<lparr>status = 200, body = RitmoList (length (Ritmos w)) (sortDesc (Ritmos w))\<rparr>, w)"
  by (simp add: get_ritmo_all_def findSorted_def query_def json_def length_sortDesc)

lemma get_brujula_all_up:
  "fault w = None \<Longrightarrow>
   get_brujula_all w =
     (\<lparr>status = 200, body = BrujulaList (length (Brujulas w)) (sortDesc (Brujulas w))\<rparr>, w)"
  by (simp add: get_brujula_all_def findSorted_def query_def json_def length_sortDesc)

lemma get_ubicacion_all_up:
  "fault w = None \<Longrightarrow>
   get_ubicacion_all w =
     (\<lparr>status = 200, body = UbicacionList (length (Ubicaciones w)) (sortDesc (Ubicaciones w))\<rparr>, w)"
  by (simp add: get_ubicacion_all_def findSorted_def query_def json_def length_sortDesc)

lemma post_conductor_201:
  assumes "post_conductor M w b = (\<lparr>status = 201, body = ConductorCreado m d\<rparr>, w')"
  shows "fault w' = None \<and> Conductores w' = Conductores w @ [d] \<and> createdAt d = clock w
         \<and> oid d = next_oid w"
  using assms
  by (auto simp add: post_conductor_def Conductor_save_def saveCheck_def status_json_def Let_def
        split: if_splits option.splits)

lemma created_conductor_first:
  assumes "post_conductor M w b = (\<lparr>status = 201, body = ConductorCreado m d\<rparr>, w')"
    and "\<forall>c\<in>set (Conductores w). createdAt c < clock w"
  shows "get_conductor_all w' =
     (\<lparr>status = 200,
       body = ConductorList (Suc (length (Conductores w))) (d # sortDesc (Conductores w))\<rparr>, w')"
proof -
  note p = post_conductor_201 [OF assms(1)]
  have "sortDesc (Conductores w @ [d]) = d # sortDesc (Conductores w)"
    using assms(2) p by (simp add: sortDesc_snoc_latest)
  then show ?thesis
    using p by (simp add: get_conductor_all_up)
qed

text \<open>
  For a store that answers, each of the four listings answers 200 with all the documents
  of its collection (\<open>total\<close> their number), ordered by creation time, most recent first.
  When \<open>POST /conductor\<close> has created a driver, at an instant later than the creation of
  every stored driver, the listing of drivers that follows has the new record in first
  position, before all the others.
\<close>

lemma listings_most_recent_first:
  "fault w = None \<Longrightarrow>
   (\<exists>ds. get_conductor_all w = (\<lparr>status = 200, body = ConductorList (length ds) ds\<rparr>, w) \<and>
         mset ds = mset (Conductores w) \<and> recentFirst ds) \<and>
   (\<exists>ds. get_ritmo_all w = (\<lparr>status = 200, body = RitmoList (length ds) ds\<rparr>, w) \<and>
         mset ds = mset (Ritmos w) \<and> recentFirst ds) \<and>
   (\<exists>ds. get_brujula_all w = (\<lparr>status = 200, body = BrujulaList (length ds) ds\<rparr>, w) \<and>
         mset ds = mset (Brujulas w) \<and> recentFirst ds) \<and>
   (\<exists>ds. get_ubicacion_all w = (\<lparr>status = 200, body = UbicacionList (length ds) ds\<rparr>, w) \<and>
         mset ds = mset (Ubicaciones w) \<and> recentFirst ds) \<and>
   (post_conductor M w b = (\<lparr>status = 201, body = ConductorCreado m d\<rparr>, w') \<and>
      (\<forall>c\<in>set (Conductores w). createdAt c < clock w) \<longrightarrow>
      (\<exists>rest. get_conductor_all w' =
                 (\<lparr>status = 200, body = ConductorList (Suc (length rest)) (d # rest)\<rparr>, w') \<and>
              mset rest = mset (Conductores w)))"
proof -
  assume up: "fault w = None"
  have a: "\<exists>ds. get_conductor_all w = (\<lparr>status = 200, body = ConductorList (length ds) ds\<rparr>, w) \<and>
         mset ds = mset (Conductores w) \<and> recentFirst ds"
    using get_conductor_all_up [OF up] mset_sortDesc [of "Conductores w"]
      recentFirst_sortDesc [of "Conductores w"] length_sortDesc [of "Conductores w"]
    by metis
  have b: "\<exists>ds. get_ritmo_all w = (\<lparr>status = 200, body = RitmoList (length ds) ds\<rparr>, w) \<and>
         mset ds = mset (Ritmos w) \<and> recentFirst ds"
    using get_ritmo_all_up [OF up] mset_sortDesc [of "Ritmos w"]
      recentFirst_sortDesc [of "Ritmos w"] length_sortDesc [of "Ritmos w"]
    by metis
  have c: "\<exists>ds. get_brujula_all w = (\<lparr>status = 200, body = BrujulaList (length ds) ds\<rparr>, w) \<and>
         mset ds = mset (Brujulas w) \<and> recentFirst ds"
    using get_brujula_all_up [OF up] mset_sortDesc [of "Brujulas w"]
      recentFirst_sortDesc [of "Brujulas w"] length_sortDesc [of "Brujulas w"]
    by metis
  have d: "\<exists>ds. get_ubicacion_all w = (\<lparr>status = 200, body = UbicacionList (length ds) ds\<rparr>, w) \<and>
         mset ds = mset (Ubicaciones w) \<and> recentFirst ds"
    using get_ubicacion_all_up [OF up] mset_sortDesc [of "Ubicaciones w"]
      recentFirst_sortDesc [of "Ubicaciones w"] length_sortDesc [of "Ubicaciones w"]
    by metis
  have e: "post_conductor M w b = (\<lparr>status = 201, body = ConductorCreado m d\<rparr>, w') \<and>
      (\<forall>c\<in>set (Conductores w). createdAt c < clock w) \<longrightarrow>
      (\<exists>rest. get_conductor_all w' =
                 (\<lparr>status = 200, body = ConductorList (Suc (length rest)) (d # rest)\<rparr>, w') \<and>
              mset rest = mset (Conductores w))"
    using created_conductor_first [of M w b m d w'] mset_sortDesc [of "Conductores w"]
      length_sortDesc [of "Conductores w"]
    by metis
  from a b c d e show ?thesis by blast
qed

lemma listings_most_recent_first_example:
  "fault someW = None \<and> Conductores someW = [c_luis] \<and> createdAt c_luis < clock someW \<and>
   (\<exists>w'. post_conductor strictM someW (ana 30 ''Femenino'') =
            (\<lparr>status = 201, body = ConductorCreado ''Conductor creado'' c_ana\<rparr>, w') \<and>
          get_conductor_all w' =
            (\<lparr>status = 200, body = ConductorList 2 [c_ana, c_luis]\<rparr>, w')) \<and>
   get_ritmo_all someW = (\<lparr>status = 200, body = RitmoList 3 [r65, r80, r72]\<rparr>, someW)"
proof -
  have up: "fault someW = None" by (simp add: someW_def)
  have older: "\<forall>c\<in>set (Conductores someW). createdAt c < clock someW"
    by (simp add: someW_def c_luis_def)
  let ?w' = "someW\<lparr>Conductores := Conductores someW @ [c_ana], next_oid := Suc (next_oid someW)\<rparr>"
  have post: "post_conductor strictM someW (ana 30 ''Femenino'') =
            (\<lparr>status = 201, body = ConductorCreado ''Conductor creado'' c_ana\<rparr>, ?w')"
    by (simp add: post_conductor_def Conductor_save_def Conductor_errors_def save_defs
          trim_def is_space_def status_json_def Let_def ana_def getprop_def someW_def c_ana_def)
  from listings_most_recent_first [OF up, of strictM "ana 30 ''Femenino''" "''Conductor creado''" c_ana ?w']
    post older
  obtain rest where
    r: "get_conductor_all ?w' =
          (\<lparr>status = 200, body = ConductorList (Suc (length rest)) (c_ana # rest)\<rparr>, ?w')"
      "mset rest = mset (Conductores someW)"
    by blast
  have "mset rest = {#c_luis#}" using r(2) by (simp add: someW_def)
  then have "rest = [c_luis]" by (simp add: mset_single_iff_right)
  with r(1) have list: "get_conductor_all ?w' =
      (\<lparr>status = 200, body = ConductorList 2 [c_ana, c_luis]\<rparr>, ?w')"
    by simp
  have ritmos: "get_ritmo_all someW = (\<lparr>status = 200, body = RitmoList 3 [r65, r80, r72]\<rparr>, someW)"
    using up
    by (simp add: get_ritmo_all_up sortDesc_def someW_def r72_def r80_def r65_def)
  have only: "Conductores someW = [c_luis]" "createdAt c_luis < clock someW"
    by (simp_all add: someW_def c_luis_def)
  from up only post list ritmos show ?thesis by blast
qed

text \<open>
  C8. A registration whose \<open>edad\<close> is the number 0, a valid age of the data model, is
  answered 400 and stores nothing: the listing of drivers that follows is the listing as
  it was before, with no new record in first position or anywhere else.
\<close>

theorem rejected_registration_not_listed:
  "getprop b ''edad'' = JNum 0 \<Longrightarrow>
   status (fst (post_conductor M w b)) = 400 \<and>
   snd (post_conductor M w b) = w \<and>
   get_conductor_all (snd (post_conductor M w b)) = get_conductor_all w"
  by (simp add: post_conductor_def status_json_def Let_def)

theorem rejected_registration_not_listed_witness:
  "getprop (ana 0 ''Femenino'') ''edad'' = JNum 0 \<and>
   status (fst (post_conductor strictM emptyW (ana 0 ''Femenino''))) = 400 \<and>
   get_conductor_all (snd (post_conductor strictM emptyW (ana 0 ''Femenino''))) =
     (\<lparr>status = 200, body = ConductorList 0 []\<rparr>, emptyW)"
proof -
  have e: "getprop (ana 0 ''Femenino'') ''edad'' = JNum 0"
    by (simp add: ana_def getprop_def)
  have up: "fault emptyW = None" and none: "Conductores emptyW = []"
    by (simp_all add: emptyW_def)
  have "get_conductor_all emptyW = (\<lparr>status = 200, body = ConductorList 0 []\<rparr>, emptyW)"
    using lists_of_empty(1) [OF up none] .
  with rejected_registration_not_listed [OF e, of strictM emptyW] e show ?thesis by simp
qed

end
